theory Spec2Isabelle
  imports Main "HOL-Library.Word"
begin

section \<open>The stream task of mod\_h2 (h2\_task.c)\<close>

text \<open>
  A shallow embedding of \<^verbatim>\<open>src/mod_h2/h2_task.c\<close>. The task is a C struct that its
  functions mutate through a pointer; here every function takes the struct (a record)
  and returns the updated one. A pointer is an \<open>option\<close>: \<open>None\<close> is \<^verbatim>\<open>NULL\<close>.
  Every call the file makes into APR, httpd or another unit of the module is written
  to a trace of events, in the order of the calls, and what such a call returns is read
  from a record of externals. The logging calls (\<^verbatim>\<open>ap_log_cerror\<close>, \<^verbatim>\<open>ap_log_perror\<close>)
  change nothing the task or the multiplexer can see and are left out of the trace.
\<close>

subsection \<open>Data\<close>

type_synonym 'a ptr = "'a option"

text \<open>
  \<^verbatim>\<open>apr_status_t\<close> with the four codes the file names; any other code an APR call may
  give is \<open>APR_OTHER n\<close>.
\<close>

datatype apr_status_t =
  APR_SUCCESS | APR_ENOMEM | APR_EGENERAL | APR_ECONNABORTED | APR_OTHER nat

text \<open>Opaque objects of APR and of the module, known by an address only.\<close>

type_synonym apr_pool_t = nat
type_synonym apr_socket_t = nat
type_synonym h2_mplx = nat
type_synonym h2_bucket = nat
type_synonym server_rec = nat
type_synonym apr_bucket_brigade = "8 word list"
type_synonym ap_input_mode_t = nat
type_synonym apr_read_type_e = nat
type_synonym apr_off_t = int

text \<open>
  C \<^verbatim>\<open>int\<close> and \<^verbatim>\<open>apr_uint32_t\<close> are both 32-bit words; \<open>sint\<close> reads the first and
  \<open>uint\<close> the second. \<^verbatim>\<open>long\<close> (the session id and the connection id) is only stored
  and handed on, never computed with, so it is an \<open>int\<close>.
\<close>

type_synonym c_int = "32 word"
type_synonym apr_uint32_t = "32 word"

text \<open>
  The fields of \<^verbatim>\<open>conn_rec\<close> that the file reads or writes. \<open>conn_config_core\<close> is the
  slot of \<^verbatim>\<open>core_module\<close> in \<^verbatim>\<open>conn_config\<close>, where the core keeps the socket.
\<close>

record conn_rec =
  conn_id :: int
  conn_pool :: "apr_pool_t ptr"
  conn_base_server :: "server_rec ptr"
  conn_sbh :: "nat ptr"
  conn_config_core :: "apr_socket_t ptr"

text \<open>
  The two bridge objects live in \<^verbatim>\<open>h2_task_input.c\<close> and \<^verbatim>\<open>h2_task_output.c\<close>, which are
  not part of the sources at hand. Their records hold the arguments that
  \<^verbatim>\<open>h2_task_create\<close> passes to their constructors and, for the output, the flag
  "has started" of the specification.
\<close>

record h2_task_input =
  in_pool :: "apr_pool_t ptr"
  in_session_id :: int
  in_stream_id :: c_int
  in_bucket :: "h2_bucket ptr"
  in_eos :: c_int
  in_mplx :: "h2_mplx ptr"

record h2_task_output =
  out_pool :: "apr_pool_t ptr"
  out_session_id :: int
  out_stream_id :: c_int
  out_mplx :: "h2_mplx ptr"
  out_started :: bool

text \<open>\<^verbatim>\<open>struct h2_task\<close>, field by field (each name prefixed with \<open>task_\<close>).\<close>

record h2_task =
  task_session_id :: int
  task_stream_id :: c_int
  task_aborted :: c_int
  task_running :: apr_uint32_t
  task_mplx :: "h2_mplx ptr"
  task_pool :: "apr_pool_t ptr"
  task_c :: "conn_rec ptr"
  task_socket :: "apr_socket_t ptr"
  task_input :: "h2_task_input ptr"
  task_output :: "h2_task_output ptr"

subsection \<open>Events, faults and externals\<close>

datatype event =
    Apr_pool_create_ex
  | Apr_pcalloc "apr_pool_t ptr"
  | Apr_bucket_alloc_create "apr_pool_t ptr"
  | Ap_run_create_connection "apr_pool_t ptr" "apr_socket_t ptr"
  | H2_mplx_reference "h2_mplx ptr"
  | H2_mplx_release "h2_mplx ptr"
  | H2_mplx_out_reset "h2_mplx ptr" c_int apr_status_t
  | H2_task_input_create c_int
  | H2_task_output_create c_int
  | H2_ctx_create_for
  | H2_task_input_destroy
  | H2_task_output_destroy
  | Apr_pool_destroy "apr_pool_t ptr"
  | Apr_socket_create "apr_pool_t ptr"
  | Ap_set_module_config "apr_socket_t ptr"
  | Ap_process_connection
  | H2_task_input_read ap_input_mode_t apr_read_type_e apr_off_t
  | H2_task_output_write apr_bucket_brigade
  | Apr_socket_close "apr_socket_t ptr"

text \<open>
  A run stops with a fault where C has no defined continuation: a failed \<^verbatim>\<open>assert\<close>,
  a field read through a null pointer, or a field read from memory that has been given
  back. The trace up to the fault is kept.
\<close>

datatype fault = Assertion_Failed | Null_Dereference | Use_After_Free

type_synonym 'a result = "(fault \<times> event list) + ('a \<times> event list)"

text \<open>
  One request of the processing pipeline to the filters the task installs: a read through
  the input filter or a write of a brigade through the output filter.
\<close>

datatype pipeline_op =
    Pipe_read ap_input_mode_t apr_read_type_e apr_off_t
  | Pipe_write apr_bucket_brigade

text \<open>
  What the calls out of the file give back.
  \<^item> \<open>ext_apr_pool_create_ex\<close>, \<open>ext_apr_socket_create\<close>: from the old content of the out
    parameter to the status and the new content;
  \<^item> \<open>ext_apr_pcalloc\<close>, \<open>ext_h2_task_input_create\<close>, \<open>ext_h2_task_output_create\<close>: whether
    the allocation gives memory (\<open>False\<close>: a null pointer);
  \<^item> \<open>ext_ap_run_create_connection\<close>: the connection the hook builds, or null;
  \<^item> \<open>ext_pipeline\<close>: the requests \<^verbatim>\<open>ap_process_connection\<close> makes before it returns;
  \<^item> \<open>ext_h2_task_input_read\<close>, \<open>ext_h2_task_output_write\<close>: the status the multiplexer's
    source or sink answers with, given the trace so far.
\<close>

record externals =
  ext_apr_pool_create_ex :: "apr_pool_t ptr \<Rightarrow> apr_status_t \<times> apr_pool_t ptr"
  ext_apr_pcalloc :: bool
  ext_ap_run_create_connection :: "conn_rec ptr"
  ext_h2_task_input_create :: bool
  ext_h2_task_output_create :: bool
  ext_apr_socket_create :: "apr_socket_t ptr \<Rightarrow> apr_status_t \<times> apr_socket_t ptr"
  ext_pipeline :: "pipeline_op list"
  ext_h2_task_input_read :: "event list \<Rightarrow> apr_status_t"
  ext_h2_task_output_write :: "event list \<Rightarrow> apr_status_t"

subsection \<open>The bridges (h2\_task\_input.c, h2\_task\_output.c)\<close>

text \<open>
  Modelled from the spec: \<^verbatim>\<open>h2_task_input_create\<close> of \<^verbatim>\<open>h2_task_input.c\<close>. The bridge is
  allocated at creation and keeps the stream's identity, the input supplied at creation
  with its end-of-stream flag, and the multiplexer.
\<close>

definition h2_task_input_create ::
  "externals \<Rightarrow> apr_pool_t ptr \<Rightarrow> int \<Rightarrow> c_int \<Rightarrow> h2_bucket ptr \<Rightarrow> c_int \<Rightarrow> h2_mplx ptr
     \<Rightarrow> h2_task_input ptr" where
  "h2_task_input_create x pool session_id stream_id input input_eos mplx =
     (if ext_h2_task_input_create x
      then Some \<lparr>in_pool = pool, in_session_id = session_id, in_stream_id = stream_id,
                 in_bucket = input, in_eos = input_eos, in_mplx = mplx\<rparr>
      else None)"

text \<open>
  Modelled from the spec: \<^verbatim>\<open>h2_task_output_create\<close> of \<^verbatim>\<open>h2_task_output.c\<close>. A new
  output bridge has not started.
\<close>

definition h2_task_output_create ::
  "externals \<Rightarrow> apr_pool_t ptr \<Rightarrow> int \<Rightarrow> c_int \<Rightarrow> h2_mplx ptr \<Rightarrow> h2_task_output ptr" where
  "h2_task_output_create x pool session_id stream_id mplx =
     (if ext_h2_task_output_create x
      then Some \<lparr>out_pool = pool, out_session_id = session_id, out_stream_id = stream_id,
                 out_mplx = mplx, out_started = False\<rparr>
      else None)"

text \<open>
  Modelled from the spec: \<^verbatim>\<open>h2_task_input_read\<close> of \<^verbatim>\<open>h2_task_input.c\<close>. The read is
  delegated to the multiplexer's input source for the stream, with the mode, the blocking
  policy and the byte count as requested; its status is the source's.
\<close>

definition h2_task_input_read ::
  "externals \<Rightarrow> h2_task_input \<Rightarrow> ap_input_mode_t \<Rightarrow> apr_read_type_e \<Rightarrow> apr_off_t
     \<Rightarrow> event list \<Rightarrow> (apr_status_t \<times> h2_task_input) \<times> event list" where
  "h2_task_input_read x input mode block readbytes w =
     (let w' = w @ [H2_task_input_read mode block readbytes]
      in ((ext_h2_task_input_read x w', input), w'))"

text \<open>
  Modelled from the spec: \<^verbatim>\<open>h2_task_output_write\<close> of \<^verbatim>\<open>h2_task_output.c\<close>. The bytes
  are handed to the multiplexer's output sink for the stream, the status is the sink's,
  and the bridge remembers that data has been written.
\<close>

definition h2_task_output_write ::
  "externals \<Rightarrow> h2_task_output \<Rightarrow> apr_bucket_brigade
     \<Rightarrow> event list \<Rightarrow> (apr_status_t \<times> h2_task_output) \<times> event list" where
  "h2_task_output_write x output brigade w =
     (let w' = w @ [H2_task_output_write brigade]
      in ((ext_h2_task_output_write x w', output\<lparr>out_started := True\<rparr>), w'))"

text \<open>
  Modelled from the spec: \<^verbatim>\<open>h2_task_output_has_started\<close> of \<^verbatim>\<open>h2_task_output.c\<close>. It
  reads the flag the bridge keeps; the flag is a field of the bridge object, so through
  a null pointer there is nothing to read.
\<close>

definition h2_task_output_has_started :: "h2_task_output ptr \<Rightarrow> fault + bool" where
  "h2_task_output_has_started output =
     (case output of None \<Rightarrow> Inl Null_Dereference | Some ob \<Rightarrow> Inr (out_started ob))"

subsection \<open>The filters\<close>

text \<open>
  \<^verbatim>\<open>h2_filter_stream_input\<close>: the task is \<^verbatim>\<open>filter->ctx\<close>. The bridge may change under the
  read, so the task comes back with it.
\<close>

definition h2_filter_stream_input ::
  "externals \<Rightarrow> h2_task ptr \<Rightarrow> ap_input_mode_t \<Rightarrow> apr_read_type_e \<Rightarrow> apr_off_t
     \<Rightarrow> event list \<Rightarrow> (apr_status_t \<times> h2_task) result" where
  "h2_filter_stream_input x ctx mode block readbytes w =
     (case ctx of
        None \<Rightarrow> Inl (Assertion_Failed, w)
      | Some task \<Rightarrow>
         (case task_input task of
            None \<Rightarrow> Inr ((APR_ECONNABORTED, task), w)
          | Some input \<Rightarrow>
             (let ((status, input'), w') = h2_task_input_read x input mode block readbytes w
              in Inr ((status, task\<lparr>task_input := Some input'\<rparr>), w'))))"

definition h2_filter_stream_output ::
  "externals \<Rightarrow> h2_task ptr \<Rightarrow> apr_bucket_brigade
     \<Rightarrow> event list \<Rightarrow> (apr_status_t \<times> h2_task) result" where
  "h2_filter_stream_output x ctx brigade w =
     (case ctx of
        None \<Rightarrow> Inl (Assertion_Failed, w)
      | Some task \<Rightarrow>
         (case task_output task of
            None \<Rightarrow> Inr ((APR_ECONNABORTED, task), w)
          | Some output \<Rightarrow>
             (let ((status, output'), w') = h2_task_output_write x output brigade w
              in Inr ((status, task\<lparr>task_output := Some output'\<rparr>), w'))))"

subsection \<open>Creation\<close>

text \<open>
  \<^verbatim>\<open>apr_pcalloc(pool, sizeof(h2_task))\<close>: memory with every byte zero, or a null pointer.
\<close>

definition zero_task :: h2_task where
  "zero_task =
     \<lparr>task_session_id = 0, task_stream_id = 0, task_aborted = 0, task_running = 0,
      task_mplx = None, task_pool = None, task_c = None, task_socket = None,
      task_input = None, task_output = None\<rparr>"

definition apr_pcalloc :: "externals \<Rightarrow> h2_task ptr" where
  "apr_pcalloc x = (if ext_apr_pcalloc x then Some zero_task else None)"

text \<open>
  \<^verbatim>\<open>h2_conn_create\<close>: the socket is taken from the master connection's core slot, the
  connection from the hook \<^verbatim>\<open>ap_run_create_connection\<close>.
\<close>

definition h2_conn_create ::
  "externals \<Rightarrow> h2_task \<Rightarrow> conn_rec ptr \<Rightarrow> event list \<Rightarrow> (apr_status_t \<times> h2_task) result" where
  "h2_conn_create x task master w =
     (case master of
        None \<Rightarrow> Inl (Null_Dereference, w)
      | Some m \<Rightarrow>
         (let task1 = task\<lparr>task_socket := conn_config_core m\<rparr>;
              w1 = w @ [Apr_bucket_alloc_create (task_pool task1),
                        Ap_run_create_connection (task_pool task1) (task_socket task1)];
              task2 = task1\<lparr>task_c := ext_ap_run_create_connection x\<rparr>
          in if task_c task2 = None
             then Inr ((APR_EGENERAL, task2), w1)
             else Inr ((APR_SUCCESS, task2), w1)))"

text \<open>
  \<^verbatim>\<open>h2_task_create\<close>. The condition \<^verbatim>\<open>1 || pool == NULL\<close> is kept as written. Where the
  allocation of the task gives a null pointer, the source reads \<^verbatim>\<open>task->stream_id\<close>
  through it to build the argument of the reset: the run stops there with a fault.
  A returned null pointer is \<open>None\<close>.
\<close>

definition h2_task_create ::
  "externals \<Rightarrow> int \<Rightarrow> c_int \<Rightarrow> conn_rec ptr \<Rightarrow> apr_pool_t ptr \<Rightarrow> h2_bucket ptr \<Rightarrow> c_int
     \<Rightarrow> h2_mplx ptr \<Rightarrow> event list \<Rightarrow> (h2_task ptr) result" where
  "h2_task_create x session_id stream_id master pool input input_eos mplx w =
     (let (status', pool', w1) =
            (if True \<or> pool = None
             then (let (s, p) = ext_apr_pool_create_ex x pool
                   in (s, p, w @ [Apr_pool_create_ex]))
             else (APR_SUCCESS, pool, w))
      in if status' \<noteq> APR_SUCCESS
         then Inr (None, w1 @ [H2_mplx_out_reset mplx stream_id status'])
         else
          (let w2 = w1 @ [Apr_pcalloc pool']
           in case apr_pcalloc x of
                None \<Rightarrow> Inl (Null_Dereference, w2)
              | Some task0 \<Rightarrow>
                 (let task1 = task0\<lparr>task_stream_id := stream_id,
                                     task_session_id := session_id,
                                     task_pool := pool'\<rparr>;
                      w3 = w2 @ [H2_mplx_reference mplx];
                      task2 = task1\<lparr>task_mplx := mplx\<rparr>
                  in case h2_conn_create x task2 master w3 of
                       Inl f \<Rightarrow> Inl f
                     | Inr ((status, task3), w4) \<Rightarrow>
                        if status \<noteq> APR_SUCCESS
                        then Inr (None, w4 @ [H2_mplx_out_reset mplx stream_id status])
                        else
                         (case task_c task3 of
                            None \<Rightarrow> Inl (Null_Dereference, w4)
                          | Some c \<Rightarrow>
                             (let task4 = task3\<lparr>task_input :=
                                    h2_task_input_create x (conn_pool c) session_id stream_id
                                      input input_eos mplx\<rparr>;
                                  task5 = task4\<lparr>task_output :=
                                    h2_task_output_create x (conn_pool c) session_id stream_id
                                      mplx\<rparr>;
                                  w5 = w4 @ [H2_task_input_create stream_id,
                                             H2_task_output_create stream_id,
                                             H2_ctx_create_for]
                              in Inr (Some task5, w5))))))"

subsection \<open>Destruction and abort\<close>

text \<open>
  What a non-null task pointer refers to once tasks can be destroyed: the task, or memory
  that has been given back. \<^verbatim>\<open>h2_task_create\<close> allocates the task from the pool it
  then stores in the task's pool field, and the field is never written again, so
  \<^verbatim>\<open>apr_pool_destroy(task->pool)\<close> gives back the memory of the task itself.
\<close>

datatype 'a memory = Freed | Live 'a

text \<open>
  \<^verbatim>\<open>h2_task_destroy\<close>: each of the bridges and the multiplexer is released and its field
  set to null; the pool is destroyed and its field left as it is. After the pool is
  destroyed the pointer refers to freed memory; the first thing the function does with
  such a pointer is to read fields of the task through it.
\<close>

definition h2_task_destroy ::
  "h2_task memory ptr \<Rightarrow> event list \<Rightarrow> (apr_status_t \<times> h2_task memory) result" where
  "h2_task_destroy p w =
     (case p of
        None \<Rightarrow> Inl (Assertion_Failed, w)
      | Some Freed \<Rightarrow> Inl (Use_After_Free, w)
      | Some (Live task) \<Rightarrow>
         (let (task1, w1) =
                (if task_input task \<noteq> None
                 then (task\<lparr>task_input := None\<rparr>, w @ [H2_task_input_destroy])
                 else (task, w));
              (task2, w2) =
                (if task_output task1 \<noteq> None
                 then (task1\<lparr>task_output := None\<rparr>, w1 @ [H2_task_output_destroy])
                 else (task1, w1));
              (task3, w3) =
                (if task_mplx task2 \<noteq> None
                 then (task2\<lparr>task_mplx := None\<rparr>, w2 @ [H2_mplx_release (task_mplx task2)])
                 else (task2, w2))
          in if task_pool task3 \<noteq> None
             then Inr ((APR_SUCCESS, Freed), w3 @ [Apr_pool_destroy (task_pool task3)])
             else Inr ((APR_SUCCESS, Live task3), w3)))"

text \<open>\<^verbatim>\<open>h2_task_abort\<close> returns nothing; the model gives back the task it has changed.\<close>

definition h2_task_abort :: "h2_task ptr \<Rightarrow> event list \<Rightarrow> h2_task result" where
  "h2_task_abort p w =
     (case p of
        None \<Rightarrow> Inl (Assertion_Failed, w)
      | Some task \<Rightarrow>
         (let task0 = task\<lparr>task_aborted := 1\<rparr>;
              (task1, w1) =
                (if task_input task0 \<noteq> None
                 then (task0\<lparr>task_input := None\<rparr>, w @ [H2_task_input_destroy])
                 else (task0, w));
              (task2, w2) =
                (if task_output task1 \<noteq> None
                 then (task1\<lparr>task_output := None\<rparr>, w1 @ [H2_task_output_destroy])
                 else (task1, w1))
          in Inr (task2, w2)))"

subsection \<open>Execution\<close>

text \<open>
  \<^verbatim>\<open>ap_process_connection\<close> belongs to the server core. \<^verbatim>\<open>h2_task_register_hooks\<close> and
  \<^verbatim>\<open>h2_task_pre_conn\<close> put the two filters on the connection with the task as their
  context, so what the task sees of the pipeline are its calls to them before it returns.
  Any run of the pipeline that returns has made a finite sequence of such calls, so the
  model runs the sequence given by the externals through the filters of the source; the
  statuses they return go to the pipeline.
\<close>

fun run_pipeline ::
  "externals \<Rightarrow> pipeline_op list \<Rightarrow> h2_task \<Rightarrow> event list \<Rightarrow> h2_task result" where
  "run_pipeline x [] task w = Inr (task, w)"
| "run_pipeline x (Pipe_read mode block readbytes # ops) task w =
     (case h2_filter_stream_input x (Some task) mode block readbytes w of
        Inl f \<Rightarrow> Inl f
      | Inr ((status, task'), w') \<Rightarrow> run_pipeline x ops task' w')"
| "run_pipeline x (Pipe_write brigade # ops) task w =
     (case h2_filter_stream_output x (Some task) brigade w of
        Inl f \<Rightarrow> Inl f
      | Inr ((status, task'), w') \<Rightarrow> run_pipeline x ops task' w')"

definition ap_process_connection ::
  "externals \<Rightarrow> h2_task \<Rightarrow> event list \<Rightarrow> h2_task result" where
  "ap_process_connection x task w = run_pipeline x (ext_pipeline x) task (w @ [Ap_process_connection])"

text \<open>
  \<^verbatim>\<open>h2_task_do\<close>. \<^verbatim>\<open>task->c->conn_config\<close> is read through \<^verbatim>\<open>task->c\<close>, and the flag of the
  output bridge through \<^verbatim>\<open>task->output\<close>.
\<close>

definition h2_task_do ::
  "externals \<Rightarrow> h2_task ptr \<Rightarrow> event list \<Rightarrow> (apr_status_t \<times> h2_task) result" where
  "h2_task_do x p w =
     (case p of
        None \<Rightarrow> Inl (Assertion_Failed, w)
      | Some task \<Rightarrow>
         (let (status, socket) = ext_apr_socket_create x (task_socket task);
              task1 = task\<lparr>task_socket := socket\<rparr>;
              w1 = w @ [Apr_socket_create (task_pool task1)]
          in if status \<noteq> APR_SUCCESS
             then Inr ((status, task1),
                       w1 @ [H2_mplx_out_reset (task_mplx task1) (task_stream_id task1) status])
             else
              (case task_c task1 of
                 None \<Rightarrow> Inl (Null_Dereference, w1)
               | Some c \<Rightarrow>
                  (let task2 = task1\<lparr>task_c := Some (c\<lparr>conn_config_core := task_socket task1\<rparr>)\<rparr>;
                       w2 = w1 @ [Ap_set_module_config (task_socket task1)]
                   in case ap_process_connection x task2 w2 of
                        Inl f \<Rightarrow> Inl f
                      | Inr (task3, w3) \<Rightarrow>
                         (case h2_task_output_has_started (task_output task3) of
                            Inl f \<Rightarrow> Inl (f, w3)
                          | Inr started \<Rightarrow>
                             (let w4 = (if \<not> started
                                        then w3 @ [H2_mplx_out_reset (task_mplx task3)
                                                     (task_stream_id task3) status]
                                        else w3);
                                  w5 = w4 @ [Apr_socket_close (task_socket task3)]
                              in Inr ((APR_SUCCESS, task3), w5)))))))"

subsection \<open>Accessors\<close>

text \<open>
  The conversions of C between \<^verbatim>\<open>int\<close> and \<^verbatim>\<open>apr_uint32_t\<close>: to unsigned, the value
  modulo \<open>2 ^ 32\<close>; to signed, the value of the same 32 bits in two's complement (what
  the compilers in use define for a value above \<^verbatim>\<open>INT_MAX\<close>).
\<close>

definition int_to_uint32 :: "c_int \<Rightarrow> apr_uint32_t" where
  "int_to_uint32 v = word_of_int (sint v mod 2 ^ 32)"

definition uint32_to_int :: "apr_uint32_t \<Rightarrow> c_int" where
  "uint32_to_int u = word_of_int (if uint u < 2 ^ 31 then uint u else uint u - 2 ^ 32)"

definition h2_task_get_session_id :: "h2_task ptr \<Rightarrow> fault + int" where
  "h2_task_get_session_id p =
     (case p of None \<Rightarrow> Inl Null_Dereference | Some task \<Rightarrow> Inr (task_session_id task))"

definition h2_task_get_stream_id :: "h2_task ptr \<Rightarrow> fault + c_int" where
  "h2_task_get_stream_id p =
     (case p of None \<Rightarrow> Inl Null_Dereference | Some task \<Rightarrow> Inr (task_stream_id task))"

definition h2_task_is_running :: "h2_task ptr \<Rightarrow> fault + c_int" where
  "h2_task_is_running p =
     (case p of
        None \<Rightarrow> Inl Null_Dereference
      | Some task \<Rightarrow> Inr (uint32_to_int (task_running task)))"

definition h2_task_set_running :: "h2_task ptr \<Rightarrow> c_int \<Rightarrow> fault + h2_task" where
  "h2_task_set_running p running =
     (case p of
        None \<Rightarrow> Inl Null_Dereference
      | Some task \<Rightarrow> Inr (task\<lparr>task_running := int_to_uint32 running\<rparr>))"

subsection \<open>Reading a trace\<close>

text \<open>The calls of \<^verbatim>\<open>h2_mplx_out_reset\<close> in a trace, in order, with their arguments.\<close>

primrec reset_calls :: "event list \<Rightarrow> (h2_mplx ptr \<times> c_int \<times> apr_status_t) list" where
  "reset_calls [] = []"
| "reset_calls (e # es) =
     (case e of
        H2_mplx_out_reset m s st \<Rightarrow> (m, s, st) # reset_calls es
      | _ \<Rightarrow> reset_calls es)"

text \<open>Whether the pipeline writes through the output filter at all.\<close>

primrec has_write :: "pipeline_op list \<Rightarrow> bool" where
  "has_write [] = False"
| "has_write (p # ps) = (case p of Pipe_write b \<Rightarrow> True | _ \<Rightarrow> has_write ps)"

text \<open>The trace a run leaves, whether it returns or stops with a fault.\<close>

definition trace_of :: "'a result \<Rightarrow> event list" where
  "trace_of r = (case r of Inl (f, w) \<Rightarrow> w | Inr (a, w) \<Rightarrow> w)"

subsection \<open>Sample values\<close>

text \<open>
  A master connection, the connection the hook builds from it, and externals under which
  every call succeeds and the pipeline reads once and writes two bytes.
\<close>

definition sample_master :: conn_rec where
  "sample_master =
     \<lparr>conn_id = 10, conn_pool = Some 1, conn_base_server = Some 2, conn_sbh = Some 3,
      conn_config_core = Some 4\<rparr>"

definition sample_conn :: conn_rec where
  "sample_conn =
     \<lparr>conn_id = 11, conn_pool = Some 7, conn_base_server = Some 2, conn_sbh = Some 3,
      conn_config_core = Some 4\<rparr>"

definition sample_ext :: externals where
  "sample_ext =
     \<lparr>ext_apr_pool_create_ex = (\<lambda>p. (APR_SUCCESS, Some 7)),
      ext_apr_pcalloc = True,
      ext_ap_run_create_connection = Some sample_conn,
      ext_h2_task_input_create = True,
      ext_h2_task_output_create = True,
      ext_apr_socket_create = (\<lambda>s. (APR_SUCCESS, Some 9)),
      ext_pipeline = [Pipe_read 0 0 8192, Pipe_write [72, 105]],
      ext_h2_task_input_read = (\<lambda>w. APR_SUCCESS),
      ext_h2_task_output_write = (\<lambda>w. APR_SUCCESS)\<rparr>"

text \<open>The task that \<^verbatim>\<open>h2_task_create\<close> builds for session 1, stream 3 under them.\<close>

definition sample_task :: h2_task where
  "sample_task =
     \<lparr>task_session_id = 1, task_stream_id = 3, task_aborted = 0, task_running = 0,
      task_mplx = Some 5, task_pool = Some 7, task_c = Some sample_conn,
      task_socket = Some 4,
      task_input = Some \<lparr>in_pool = Some 7, in_session_id = 1, in_stream_id = 3,
                          in_bucket = Some 6, in_eos = 1, in_mplx = Some 5\<rparr>,
      task_output = Some \<lparr>out_pool = Some 7, out_session_id = 1, out_stream_id = 3,
                           out_mplx = Some 5, out_started = False\<rparr>\<rparr>"

section \<open>Properties\<close>

subsection \<open>Auxiliary facts\<close>

lemma reset_calls_append: "reset_calls (u @ v) = reset_calls u @ reset_calls v"
  by (induction u) (auto split: event.splits)

lemma int_to_uint32_bits: "int_to_uint32 v = v"
proof -
  have "(word_of_int (sint v mod 2 ^ 32) :: 32 word) = word_of_int (sint v)"
    using word_of_int_eq_iff [where ?'a = 32, of "sint v mod 2 ^ 32" "sint v"]
    by (simp add: take_bit_eq_mod)
  then show ?thesis unfolding int_to_uint32_def by simp
qed

lemma uint32_to_int_bits: "uint32_to_int u = u"
  by (simp add: uint32_to_int_def)

lemma sample_task_created:
  "h2_task_create sample_ext 1 3 (Some sample_master) pool (Some 6) 1 (Some 5) [] =
     Inr (Some sample_task,
          [Apr_pool_create_ex, Apr_pcalloc (Some 7), H2_mplx_reference (Some 5),
           Apr_bucket_alloc_create (Some 7), Ap_run_create_connection (Some 7) (Some 4),
           H2_task_input_create 3, H2_task_output_create 3, H2_ctx_create_for])"
  by (simp add: h2_task_create_def h2_conn_create_def apr_pcalloc_def zero_task_def
      h2_task_input_create_def h2_task_output_create_def sample_ext_def sample_master_def
      sample_task_def sample_conn_def)

lemma filter_input_torn_down:
  "task_input task = None \<Longrightarrow>
   h2_filter_stream_input x (Some task) mode block readbytes w =
     Inr ((APR_ECONNABORTED, task), w)"
  by (simp add: h2_filter_stream_input_def)

lemma filter_output_torn_down:
  "task_output task = None \<Longrightarrow>
   h2_filter_stream_output x (Some task) brigade w = Inr ((APR_ECONNABORTED, task), w)"
  by (simp add: h2_filter_stream_output_def)

lemma abort_result:
  "h2_task_abort (Some task) w =
     Inr (task\<lparr>task_aborted := 1, task_input := None, task_output := None\<rparr>,
          w @ (if task_input task \<noteq> None then [H2_task_input_destroy] else [])
            @ (if task_output task \<noteq> None then [H2_task_output_destroy] else []))"
  by (cases task) (simp add: h2_task_abort_def)

lemma destroy_result:
  "h2_task_destroy (Some (Live task)) w =
     Inr ((APR_SUCCESS,
           if task_pool task \<noteq> None then Freed
           else Live (task\<lparr>task_input := None, task_output := None, task_mplx := None\<rparr>)),
          w @ (if task_input task \<noteq> None then [H2_task_input_destroy] else [])
            @ (if task_output task \<noteq> None then [H2_task_output_destroy] else [])
            @ (if task_mplx task \<noteq> None then [H2_mplx_release (task_mplx task)] else [])
            @ (if task_pool task \<noteq> None then [Apr_pool_destroy (task_pool task)] else []))"
  by (cases task) (simp add: h2_task_destroy_def)

lemma run_pipeline_torn_down:
  "task_input task = None \<Longrightarrow> task_output task = None \<Longrightarrow>
   run_pipeline x ops task w = Inr (task, w)"
proof (induction ops)
  case Nil
  show ?case by simp
next
  case (Cons p ops)
  then show ?case
    by (cases p) (simp_all add: filter_input_torn_down filter_output_torn_down)
qed

lemma run_pipeline_output:
  "task_output task = Some ob \<Longrightarrow>
   \<exists>task' w' ob'. run_pipeline x ops task w = Inr (task', w') \<and>
     task_output task' = Some ob' \<and>
     out_started ob' = (out_started ob \<or> has_write ops) \<and>
     reset_calls w' = reset_calls w \<and>
     task_mplx task' = task_mplx task \<and>
     task_stream_id task' = task_stream_id task"
proof (induction ops arbitrary: task w ob)
  case Nil
  then show ?case by simp
next
  case (Cons p ops)
  show ?case
  proof (cases p)
    case (Pipe_read m b n)
    show ?thesis
    proof (cases "task_input task")
      case None
      then show ?thesis
        using Cons.IH [OF Cons.prems, of w] Pipe_read
        by (simp add: h2_filter_stream_input_def)
    next
      case (Some i)
      let ?t = "task\<lparr>task_input := Some i\<rparr>"
      have o: "task_output ?t = Some ob" using Cons.prems by simp
      show ?thesis
        using Cons.IH [OF o, of "w @ [H2_task_input_read m b n]"] Pipe_read Some
        by (simp add: h2_filter_stream_input_def h2_task_input_read_def reset_calls_append
            Let_def)
    qed
  next
    case (Pipe_write b)
    let ?ob = "ob\<lparr>out_started := True\<rparr>"
    let ?t = "task\<lparr>task_output := Some ?ob\<rparr>"
    have o: "task_output ?t = Some ?ob" by simp
    show ?thesis
      using Cons.IH [OF o, of "w @ [H2_task_output_write b]"] Pipe_write Cons.prems
      by (simp add: h2_filter_stream_output_def h2_task_output_write_def reset_calls_append
          Let_def)
  qed
qed

lemma h2_task_do_success:
  assumes sock: "ext_apr_socket_create x (task_socket task) = (APR_SUCCESS, socket)"
    and conn: "task_c task = Some c"
    and out: "task_output task = Some ob"
  shows "\<exists>task' w' ob'. h2_task_do x (Some task) w = Inr ((APR_SUCCESS, task'), w') \<and>
     task_output task' = Some ob' \<and>
     out_started ob' = (out_started ob \<or> has_write (ext_pipeline x)) \<and>
     reset_calls w' = reset_calls w @
       (if out_started ob' then [] else [(task_mplx task, task_stream_id task, APR_SUCCESS)])"
proof -
  let ?t2 = "task\<lparr>task_socket := socket,
                   task_c := Some (c\<lparr>conn_config_core := socket\<rparr>)\<rparr>"
  let ?w2 = "w @ [Apr_socket_create (task_pool task), Ap_set_module_config socket,
                  Ap_process_connection]"
  have o: "task_output ?t2 = Some ob" using out by simp
  obtain task' w' ob' where
    run: "run_pipeline x (ext_pipeline x) ?t2 ?w2 = Inr (task', w')" and
    ob': "task_output task' = Some ob'" and
    st: "out_started ob' = (out_started ob \<or> has_write (ext_pipeline x))" and
    rs: "reset_calls w' = reset_calls ?w2" and
    mp: "task_mplx task' = task_mplx ?t2" and
    sid: "task_stream_id task' = task_stream_id ?t2"
    using run_pipeline_output [OF o, of x "ext_pipeline x" ?w2] by blast
  have rs': "reset_calls w' = reset_calls w"
    using rs by (simp add: reset_calls_append)
  have "h2_task_do x (Some task) w =
          Inr ((APR_SUCCESS, task'),
               (if \<not> out_started ob'
                then w' @ [H2_mplx_out_reset (task_mplx task') (task_stream_id task')
                             APR_SUCCESS]
                else w') @ [Apr_socket_close (task_socket task')])"
    using sock conn run ob'
    by (simp add: h2_task_do_def ap_process_connection_def h2_task_output_has_started_def)
  then show ?thesis
    using ob' st rs' mp sid by (simp add: reset_calls_append)
qed

subsection \<open>Abort and the bridges\<close>

text \<open>
  C7. \<^verbatim>\<open>h2_task_abort\<close> changes the aborted flag and the two bridge fields and nothing
  else: session id, stream id, running flag, multiplexer, pool, connection and socket of
  the task are as before, and the only calls it makes are the teardown of a bridge that
  is there (\<^verbatim>\<open>h2_task_input_destroy\<close>, \<^verbatim>\<open>h2_task_output_destroy\<close>).
\<close>

theorem h2_task_abort_frame:
  "(let task' = task\<lparr>task_aborted := 1, task_input := None, task_output := None\<rparr>
    in h2_task_abort (Some task) w =
         Inr (task',
              w @ (if task_input task \<noteq> None then [H2_task_input_destroy] else [])
                @ (if task_output task \<noteq> None then [H2_task_output_destroy] else []))
       \<and> task_session_id task' = task_session_id task
       \<and> task_stream_id task' = task_stream_id task
       \<and> task_running task' = task_running task
       \<and> task_mplx task' = task_mplx task
       \<and> task_pool task' = task_pool task
       \<and> task_c task' = task_c task
       \<and> task_socket task' = task_socket task)"
  unfolding Let_def using abort_result [of task w] by simp

text \<open>
  C3. Once \<^verbatim>\<open>h2_task_abort\<close> has run on the task, or whenever both bridge fields are
  null, a read through the input filter and a write through the output filter return
  \<^verbatim>\<open>APR_ECONNABORTED\<close> and leave the trace as it was (no call to \<^verbatim>\<open>h2_task_input_read\<close> or
  \<^verbatim>\<open>h2_task_output_write\<close>, which reach the multiplexer); the task is unchanged by them, so
  the same holds for every later call: a whole sequence of pipeline requests adds nothing
  to the trace.
\<close>

theorem torn_down_bridges_econnaborted:
  assumes "h2_task_abort (Some task0) w0 = Inr (task, w1)
             \<or> (task_input task = None \<and> task_output task = None)"
  shows "h2_filter_stream_input x (Some task) mode block readbytes w =
           Inr ((APR_ECONNABORTED, task), w)
         \<and> h2_filter_stream_output x (Some task) brigade w =
             Inr ((APR_ECONNABORTED, task), w)
         \<and> run_pipeline x ops task w = Inr (task, w)"
proof -
  have null: "task_input task = None \<and> task_output task = None"
    using assms by (auto simp: abort_result)
  show ?thesis
    using null
    by (simp add: filter_input_torn_down filter_output_torn_down run_pipeline_torn_down)
qed

theorem torn_down_bridges_econnaborted_witness:
  "h2_task_abort (Some sample_task) [] =
     Inr (sample_task\<lparr>task_aborted := 1, task_input := None, task_output := None\<rparr>,
          [H2_task_input_destroy, H2_task_output_destroy])
   \<and> h2_filter_stream_input sample_ext
        (Some (sample_task\<lparr>task_aborted := 1, task_input := None, task_output := None\<rparr>))
        0 0 8192 [H2_task_input_destroy, H2_task_output_destroy] =
       Inr ((APR_ECONNABORTED,
             sample_task\<lparr>task_aborted := 1, task_input := None, task_output := None\<rparr>),
            [H2_task_input_destroy, H2_task_output_destroy])
   \<and> h2_filter_stream_output sample_ext
        (Some (sample_task\<lparr>task_aborted := 1, task_input := None, task_output := None\<rparr>))
        [72, 105] [H2_task_input_destroy, H2_task_output_destroy] =
       Inr ((APR_ECONNABORTED,
             sample_task\<lparr>task_aborted := 1, task_input := None, task_output := None\<rparr>),
            [H2_task_input_destroy, H2_task_output_destroy])"
proof -
  have h: "h2_task_abort (Some sample_task) [] =
     Inr (sample_task\<lparr>task_aborted := 1, task_input := None, task_output := None\<rparr>,
          [H2_task_input_destroy, H2_task_output_destroy])"
    by (simp add: abort_result sample_task_def)
  show ?thesis
    using h torn_down_bridges_econnaborted [OF disjI1 [OF h], of sample_ext 0 0 8192
        "[H2_task_input_destroy, H2_task_output_destroy]" "[72, 105]" "[]"]
    by simp
qed

subsection \<open>The running flag\<close>

text \<open>
  C9. \<^verbatim>\<open>h2_task_set_running\<close> followed by \<^verbatim>\<open>h2_task_is_running\<close> gives back the value
  that was set, for every task and every \<^verbatim>\<open>int\<close>; setting changes the running flag and
  no other field, and reading changes nothing (it returns a value only).
\<close>

theorem running_roundtrip:
  "h2_task_set_running (Some task) v = Inr (task\<lparr>task_running := int_to_uint32 v\<rparr>)
   \<and> h2_task_is_running (Some (task\<lparr>task_running := int_to_uint32 v\<rparr>)) = Inr v"
  by (simp add: h2_task_set_running_def h2_task_is_running_def int_to_uint32_bits
      uint32_to_int_bits)

subsection \<open>Execution\<close>

text \<open>
  C5. If \<^verbatim>\<open>apr_socket_create\<close> fails at the start of \<^verbatim>\<open>h2_task_do\<close>, the task resets its
  stream at the multiplexer with that status and returns that status; the trace ends
  with the reset, so \<^verbatim>\<open>ap_process_connection\<close> is not called.
\<close>

theorem h2_task_do_socket_failure:
  assumes "ext_apr_socket_create x (task_socket task) = (status, socket)"
    and "status \<noteq> APR_SUCCESS"
  shows "h2_task_do x (Some task) w =
           Inr ((status, task\<lparr>task_socket := socket\<rparr>),
                w @ [Apr_socket_create (task_pool task),
                     H2_mplx_out_reset (task_mplx task) (task_stream_id task) status])"
  using assms by (simp add: h2_task_do_def)

theorem h2_task_do_socket_failure_witness:
  "h2_task_do (sample_ext\<lparr>ext_apr_socket_create := (\<lambda>s. (APR_OTHER 24, None))\<rparr>)
     (Some sample_task) [] =
     Inr ((APR_OTHER 24, sample_task\<lparr>task_socket := None\<rparr>),
          [Apr_socket_create (Some 7), H2_mplx_out_reset (Some 5) 3 (APR_OTHER 24)])"
proof -
  have a: "ext_apr_socket_create
             (sample_ext\<lparr>ext_apr_socket_create := (\<lambda>s. (APR_OTHER 24, None))\<rparr>)
             (task_socket sample_task) = (APR_OTHER 24, None)"
    by simp
  have b: "APR_OTHER 24 \<noteq> APR_SUCCESS" by simp
  show ?thesis
    using h2_task_do_socket_failure [OF a b, of "[]"] by (simp add: sample_task_def)
qed

text \<open>
  C2. For a task whose connection and output bridge are there, once socket creation has
  succeeded and the pipeline has returned: the output bridge has started exactly if it had
  started before or the pipeline wrote through the output filter, and \<^verbatim>\<open>h2_task_do\<close>
  adds one reset of the task's stream to the trace if the bridge has not started, and no
  reset if it has. So a pipeline that wrote output bytes causes no reset.
\<close>

theorem h2_task_do_reset_iff_not_started:
  assumes "ext_apr_socket_create x (task_socket task) = (APR_SUCCESS, socket)"
    and "task_c task = Some c"
    and "task_output task = Some ob"
  shows "\<exists>task' w' ob'. h2_task_do x (Some task) w = Inr ((APR_SUCCESS, task'), w') \<and>
     task_output task' = Some ob' \<and>
     out_started ob' = (out_started ob \<or> has_write (ext_pipeline x)) \<and>
     (if out_started ob'
      then reset_calls w' = reset_calls w
      else \<exists>status. reset_calls w' =
             reset_calls w @ [(task_mplx task, task_stream_id task, status)])"
proof -
  obtain task' w' ob' where
    "h2_task_do x (Some task) w = Inr ((APR_SUCCESS, task'), w')"
    "task_output task' = Some ob'"
    "out_started ob' = (out_started ob \<or> has_write (ext_pipeline x))"
    "reset_calls w' = reset_calls w @
       (if out_started ob' then [] else [(task_mplx task, task_stream_id task, APR_SUCCESS)])"
    using h2_task_do_success [OF assms, of w] by blast
  then show ?thesis by (cases "out_started ob'") auto
qed

theorem h2_task_do_reset_iff_not_started_witness:
  "\<exists>task' w'. h2_task_do sample_ext (Some sample_task) [] = Inr ((APR_SUCCESS, task'), w')
     \<and> reset_calls w' = []"
proof -
  have a: "ext_apr_socket_create sample_ext (task_socket sample_task) = (APR_SUCCESS, Some 9)"
    by (simp add: sample_ext_def)
  have b: "task_c sample_task = Some sample_conn"
    by (simp add: sample_task_def)
  have c: "task_output sample_task =
             Some \<lparr>out_pool = Some 7, out_session_id = 1, out_stream_id = 3,
                    out_mplx = Some 5, out_started = False\<rparr>"
    by (simp add: sample_task_def)
  have d: "has_write (ext_pipeline sample_ext)"
    by (simp add: sample_ext_def)
  show ?thesis
    using h2_task_do_reset_iff_not_started [OF a b c, of "[]"] d by auto
qed

text \<open>
  The run behind that witness, call by call: the read and the write are delegated, the
  two bytes reach \<^verbatim>\<open>h2_task_output_write\<close>, and the socket is closed with no reset before.
\<close>

lemma sample_run_with_output:
  "h2_task_do sample_ext (Some sample_task) [] =
     Inr ((APR_SUCCESS,
           sample_task\<lparr>task_socket := Some 9,
                       task_c := Some (sample_conn\<lparr>conn_config_core := Some 9\<rparr>),
                       task_output :=
                         Some \<lparr>out_pool = Some 7, out_session_id = 1, out_stream_id = 3,
                                out_mplx = Some 5, out_started = True\<rparr>\<rparr>),
          [Apr_socket_create (Some 7), Ap_set_module_config (Some 9), Ap_process_connection,
           H2_task_input_read 0 0 8192, H2_task_output_write [72, 105],
           Apr_socket_close (Some 9)])"
  by (simp add: h2_task_do_def ap_process_connection_def h2_task_output_has_started_def
      h2_filter_stream_input_def h2_task_input_read_def h2_filter_stream_output_def
      h2_task_output_write_def sample_ext_def sample_task_def)

text \<open>
  C10. For a task whose connection and output bridge are there: whenever socket creation
  succeeds, \<^verbatim>\<open>h2_task_do\<close> returns \<^verbatim>\<open>APR_SUCCESS\<close>, whatever the pipeline requested and
  whatever statuses its reads and writes got; and a reset it issues on the way carries
  \<^verbatim>\<open>APR_SUCCESS\<close>, the status left over from socket creation.
\<close>

theorem h2_task_do_returns_success:
  assumes "ext_apr_socket_create x (task_socket task) = (APR_SUCCESS, socket)"
    and "task_c task = Some c"
    and "task_output task = Some ob"
  shows "\<exists>task' w'. h2_task_do x (Some task) w = Inr ((APR_SUCCESS, task'), w') \<and>
     (reset_calls w' = reset_calls w \<or>
      reset_calls w' = reset_calls w @ [(task_mplx task, task_stream_id task, APR_SUCCESS)])"
proof -
  obtain task' w' ob' where
    "h2_task_do x (Some task) w = Inr ((APR_SUCCESS, task'), w')"
    "task_output task' = Some ob'"
    "out_started ob' = (out_started ob \<or> has_write (ext_pipeline x))"
    "reset_calls w' = reset_calls w @
       (if out_started ob' then [] else [(task_mplx task, task_stream_id task, APR_SUCCESS)])"
    using h2_task_do_success [OF assms, of w] by blast
  then show ?thesis by (cases "out_started ob'") auto
qed

theorem h2_task_do_returns_success_witness:
  "h2_task_do (sample_ext\<lparr>ext_pipeline := [Pipe_read 0 0 8192],
                           ext_h2_task_input_read := (\<lambda>w. APR_EGENERAL)\<rparr>)
     (Some sample_task) [] =
     Inr ((APR_SUCCESS,
           sample_task\<lparr>task_socket := Some 9,
                       task_c := Some (sample_conn\<lparr>conn_config_core := Some 9\<rparr>)\<rparr>),
          [Apr_socket_create (Some 7), Ap_set_module_config (Some 9), Ap_process_connection,
           H2_task_input_read 0 0 8192, H2_mplx_out_reset (Some 5) 3 APR_SUCCESS,
           Apr_socket_close (Some 9)])"
proof -
  let ?x = "sample_ext\<lparr>ext_pipeline := [Pipe_read 0 0 8192],
                        ext_h2_task_input_read := (\<lambda>w. APR_EGENERAL)\<rparr>"
  have a: "ext_apr_socket_create ?x (task_socket sample_task) = (APR_SUCCESS, Some 9)"
    by (simp add: sample_ext_def)
  have b: "task_c sample_task = Some sample_conn"
    by (simp add: sample_task_def)
  have c: "task_output sample_task =
             Some \<lparr>out_pool = Some 7, out_session_id = 1, out_stream_id = 3,
                    out_mplx = Some 5, out_started = False\<rparr>"
    by (simp add: sample_task_def)
  have e: "h2_task_do ?x (Some sample_task) [] =
     Inr ((APR_SUCCESS,
           sample_task\<lparr>task_socket := Some 9,
                       task_c := Some (sample_conn\<lparr>conn_config_core := Some 9\<rparr>)\<rparr>),
          [Apr_socket_create (Some 7), Ap_set_module_config (Some 9), Ap_process_connection,
           H2_task_input_read 0 0 8192, H2_mplx_out_reset (Some 5) 3 APR_SUCCESS,
           Apr_socket_close (Some 9)])"
    by (simp add: h2_task_do_def ap_process_connection_def h2_task_output_has_started_def
        h2_filter_stream_input_def h2_task_input_read_def sample_ext_def sample_task_def)
  show ?thesis
    using h2_task_do_returns_success [OF a b c, of "[]"] e by simp
qed

subsection \<open>Creation\<close>

text \<open>
  Two of the three failures of creation end as the specification asks: one reset with the
  stream id passed in and the status of the failed step, and a null result.
\<close>

lemma create_pool_failure:
  assumes "ext_apr_pool_create_ex x pool = (status, pool')"
    and "status \<noteq> APR_SUCCESS"
  shows "h2_task_create x session_id stream_id master pool input input_eos mplx w =
           Inr (None, w @ [Apr_pool_create_ex, H2_mplx_out_reset mplx stream_id status])"
  using assms by (simp add: h2_task_create_def)

lemma create_conn_failure:
  assumes "ext_apr_pool_create_ex x pool = (APR_SUCCESS, pool')"
    and "ext_apr_pcalloc x"
    and "ext_ap_run_create_connection x = None"
  shows "h2_task_create x session_id stream_id (Some m) pool input input_eos mplx w =
           Inr (None,
                w @ [Apr_pool_create_ex, Apr_pcalloc pool', H2_mplx_reference mplx,
                     Apr_bucket_alloc_create pool',
                     Ap_run_create_connection pool' (conn_config_core m),
                     H2_mplx_out_reset mplx stream_id APR_EGENERAL])"
  using assms
  by (simp add: h2_task_create_def h2_conn_create_def apr_pcalloc_def zero_task_def)

text \<open>
  C1. The third failure does not: when the pool is there and \<^verbatim>\<open>apr_pcalloc\<close> gives a null
  pointer for the task, \<^verbatim>\<open>h2_task_create\<close> reads the stream id for the reset through that
  null pointer (\<^verbatim>\<open>task->stream_id\<close>). The run stops with a fault after the allocation; no
  reset has been made and nothing is returned.
\<close>

theorem h2_task_create_alloc_failure:
  assumes "ext_apr_pool_create_ex x pool = (APR_SUCCESS, pool')"
    and "\<not> ext_apr_pcalloc x"
  shows "h2_task_create x session_id stream_id master pool input input_eos mplx w =
           Inl (Null_Dereference, w @ [Apr_pool_create_ex, Apr_pcalloc pool'])"
  using assms by (simp add: h2_task_create_def apr_pcalloc_def)

theorem h2_task_create_alloc_failure_witness:
  "h2_task_create (sample_ext\<lparr>ext_apr_pcalloc := False\<rparr>) 1 3 (Some sample_master) None
     (Some 6) 1 (Some 5) [] =
     Inl (Null_Dereference, [Apr_pool_create_ex, Apr_pcalloc (Some 7)])
   \<and> reset_calls [Apr_pool_create_ex, Apr_pcalloc (Some 7)] = []"
proof -
  have a: "ext_apr_pool_create_ex (sample_ext\<lparr>ext_apr_pcalloc := False\<rparr>) None =
             (APR_SUCCESS, Some 7)"
    by (simp add: sample_ext_def)
  have b: "\<not> ext_apr_pcalloc (sample_ext\<lparr>ext_apr_pcalloc := False\<rparr>)"
    by simp
  show ?thesis
    using h2_task_create_alloc_failure [OF a b, of 1 3 "Some sample_master" "Some 6" 1
        "Some 5" "[]"]
    by simp
qed

text \<open>
  C6. When the connection cannot be built, \<^verbatim>\<open>h2_task_create\<close> has already called
  \<^verbatim>\<open>h2_mplx_reference\<close>; it returns a null pointer without a call of
  \<^verbatim>\<open>h2_mplx_release\<close>, and with no task handed out no later \<^verbatim>\<open>h2_task_destroy\<close> can make
  that call. On this path the trace gains one reference and no release.
\<close>

theorem h2_task_create_conn_failure_keeps_reference:
  assumes "ext_apr_pool_create_ex x pool = (APR_SUCCESS, pool')"
    and "ext_apr_pcalloc x"
    and "ext_ap_run_create_connection x = None"
  shows "\<exists>w'. h2_task_create x session_id stream_id (Some m) pool input input_eos mplx w =
                 Inr (None, w')
     \<and> count_list w' (H2_mplx_reference mplx) = count_list w (H2_mplx_reference mplx) + 1
     \<and> count_list w' (H2_mplx_release mplx) = count_list w (H2_mplx_release mplx)"
  using create_conn_failure [OF assms, of session_id stream_id m input input_eos mplx w]
  by simp

theorem h2_task_create_conn_failure_keeps_reference_witness:
  "\<exists>w'. h2_task_create (sample_ext\<lparr>ext_ap_run_create_connection := None\<rparr>) 2 1
           (Some sample_master) None (Some 6) 1 (Some 5) [] = Inr (None, w')
     \<and> count_list w' (H2_mplx_reference (Some 5)) = 1
     \<and> count_list w' (H2_mplx_release (Some 5)) = 0"
proof -
  let ?x = "sample_ext\<lparr>ext_ap_run_create_connection := None\<rparr>"
  have a: "ext_apr_pool_create_ex ?x None = (APR_SUCCESS, Some 7)"
    by (simp add: sample_ext_def)
  have b: "ext_apr_pcalloc ?x"
    by (simp add: sample_ext_def)
  have c: "ext_ap_run_create_connection ?x = None"
    by simp
  show ?thesis
    using h2_task_create_conn_failure_keeps_reference [OF a b c, of 2 1 sample_master
        "Some 6" 1 "Some 5" "[]"]
    by simp
qed

text \<open>
  On the other paths the count is balanced: a task that creation hands out holds the
  multiplexer it referenced once, \<^verbatim>\<open>h2_task_destroy\<close> on it releases that multiplexer
  once, and \<^verbatim>\<open>h2_task_abort\<close> releases nothing.
\<close>

lemma create_success_references_once:
  assumes "h2_task_create x session_id stream_id master pool input input_eos mplx w =
             Inr (Some task, w')"
  shows "task_mplx task = mplx
     \<and> count_list w' (H2_mplx_reference mplx) = count_list w (H2_mplx_reference mplx) + 1
     \<and> count_list w' (H2_mplx_release mplx) = count_list w (H2_mplx_release mplx)"
  using assms
  by (auto simp: h2_task_create_def h2_conn_create_def apr_pcalloc_def zero_task_def Let_def
      split: prod.splits if_splits option.splits)

lemma destroy_releases_once:
  "\<exists>cell w1. h2_task_destroy (Some (Live task)) w = Inr ((APR_SUCCESS, cell), w1)
     \<and> count_list w1 (H2_mplx_release (Some m)) =
         count_list w (H2_mplx_release (Some m)) + (if task_mplx task = Some m then 1 else 0)"
  by (simp add: destroy_result)

lemma abort_releases_nothing:
  "\<exists>task1 w1. h2_task_abort (Some task) w = Inr (task1, w1)
     \<and> task_mplx task1 = task_mplx task
     \<and> count_list w1 (H2_mplx_release m) = count_list w (H2_mplx_release m)"
  by (simp add: abort_result)

text \<open>
  C8. Whatever pool is passed in, null or not, \<^verbatim>\<open>h2_task_create\<close> begins with a call of
  \<^verbatim>\<open>apr_pool_create_ex\<close>, and the pool of a task it hands out is the one that call
  produced.
\<close>

theorem h2_task_create_own_pool:
  "(\<exists>es. trace_of (h2_task_create x session_id stream_id master pool input input_eos mplx w)
           = w @ Apr_pool_create_ex # es)
   \<and> (\<forall>task w'. h2_task_create x session_id stream_id master pool input input_eos mplx w
                    = Inr (Some task, w')
                 \<longrightarrow> task_pool task = snd (ext_apr_pool_create_ex x pool))"
  by (auto simp: h2_task_create_def h2_conn_create_def apr_pcalloc_def zero_task_def Let_def
      trace_of_def split: prod.splits if_splits option.splits)

theorem h2_task_create_own_pool_witness:
  "h2_task_create sample_ext 1 3 (Some sample_master) (Some 99) (Some 6) 1 (Some 5) [] =
     Inr (Some sample_task,
          [Apr_pool_create_ex, Apr_pcalloc (Some 7), H2_mplx_reference (Some 5),
           Apr_bucket_alloc_create (Some 7), Ap_run_create_connection (Some 7) (Some 4),
           H2_task_input_create 3, H2_task_output_create 3, H2_ctx_create_for])
   \<and> task_pool sample_task = snd (ext_apr_pool_create_ex sample_ext (Some 99))
   \<and> snd (ext_apr_pool_create_ex sample_ext (Some 99)) = Some 7"
proof -
  have a: "h2_task_create sample_ext 1 3 (Some sample_master) (Some 99) (Some 6) 1 (Some 5) []
    = Inr (Some sample_task,
          [Apr_pool_create_ex, Apr_pcalloc (Some 7), H2_mplx_reference (Some 5),
           Apr_bucket_alloc_create (Some 7), Ap_run_create_connection (Some 7) (Some 4),
           H2_task_input_create 3, H2_task_output_create 3, H2_ctx_create_for])"
    by (rule sample_task_created)
  have b: "task_pool sample_task = snd (ext_apr_pool_create_ex sample_ext (Some 99))"
    using h2_task_create_own_pool [of sample_ext 1 3 "Some sample_master" "Some 99"
        "Some 6" 1 "Some 5" "[]"] a
    by blast
  have c: "snd (ext_apr_pool_create_ex sample_ext (Some 99)) = Some 7"
    by (simp add: sample_ext_def)
  show ?thesis using a b c by blast
qed

subsection \<open>Repeated abort and destruction\<close>

text \<open>
  A second \<^verbatim>\<open>h2_task_abort\<close> on a task is a no-op: it gives back the task and the trace
  as the first left them.
\<close>

lemma abort_twice:
  "\<exists>task1 w1. h2_task_abort (Some task) w = Inr (task1, w1)
     \<and> h2_task_abort (Some task1) w1 = Inr (task1, w1)"
  by (simp add: abort_result)

text \<open>
  C4. \<^verbatim>\<open>h2_task_destroy\<close> is not idempotent. For a task with a pool (every task that
  \<^verbatim>\<open>h2_task_create\<close> hands out after a successful \<^verbatim>\<open>apr_pool_create_ex\<close>), the first call
  ends by destroying the pool the task is allocated from, and returns \<^verbatim>\<open>APR_SUCCESS\<close>;
  the pointer then refers to freed memory, and a second call reads the task's fields
  from it: it stops with a fault instead of doing nothing.
\<close>

theorem h2_task_destroy_twice_reads_freed_task:
  assumes "task_pool task \<noteq> None"
  shows "\<exists>w1. h2_task_destroy (Some (Live task)) w = Inr ((APR_SUCCESS, Freed), w1)
     \<and> h2_task_destroy (Some Freed) w1 = Inl (Use_After_Free, w1)"
  using assms by (simp add: destroy_result) (simp add: h2_task_destroy_def)

theorem h2_task_destroy_twice_reads_freed_task_witness:
  "h2_task_destroy (Some (Live sample_task)) [] =
     Inr ((APR_SUCCESS, Freed),
          [H2_task_input_destroy, H2_task_output_destroy, H2_mplx_release (Some 5),
           Apr_pool_destroy (Some 7)])
   \<and> h2_task_destroy (Some Freed)
        [H2_task_input_destroy, H2_task_output_destroy, H2_mplx_release (Some 5),
         Apr_pool_destroy (Some 7)] =
       Inl (Use_After_Free,
            [H2_task_input_destroy, H2_task_output_destroy, H2_mplx_release (Some 5),
             Apr_pool_destroy (Some 7)])"
proof -
  have a: "task_pool sample_task \<noteq> None"
    by (simp add: sample_task_def)
  have b: "h2_task_destroy (Some (Live sample_task)) [] =
     Inr ((APR_SUCCESS, Freed),
          [H2_task_input_destroy, H2_task_output_destroy, H2_mplx_release (Some 5),
           Apr_pool_destroy (Some 7)])"
    by (simp add: destroy_result sample_task_def)
  show ?thesis
    using h2_task_destroy_twice_reads_freed_task [OF a, of "[]"] b by simp
qed

end
